theory Spec2Isabelle
  imports Main "HOL-Library.Word" "HOL-Library.Sublist"
begin

section \<open>Python values used by the API handler\<close>

text \<open>
  A Python \<open>str\<close> is a sequence of Unicode code points, a \<open>bytes\<close> object a sequence of
  octets. The handler converts between the two with \<open>bytes.decode()\<close>, so the two are kept
  apart: a text is a list of code points, and a literal of the source is written
  \<open>py ''...''\<close>.
\<close>

type_synonym pystr = "nat list"

type_synonym bytes = "8 word list"

definition py :: "string \<Rightarrow> pystr" where
  "py s = map of_char s"

text \<open>
  A \<open>dict\<close> with text keys and text values, in insertion order. \<open>d[k] = v\<close> replaces the
  value of a key that is present, where it stands, and appends a new key at the end;
  \<open>d.update(other)\<close> assigns the items of \<open>other\<close> one after the other.
\<close>

type_synonym dict = "(pystr \<times> pystr) list"

fun dict_setitem :: "pystr \<Rightarrow> pystr \<Rightarrow> dict \<Rightarrow> dict" where
  "dict_setitem k v [] = [(k, v)]"
| "dict_setitem k v ((k', v') # d) =
     (if k' = k then (k, v) # d else (k', v') # dict_setitem k v d)"

fun dict_update :: "dict \<Rightarrow> dict \<Rightarrow> dict" where
  "dict_update d [] = d"
| "dict_update d ((k, v) # other) = dict_update (dict_setitem k v d) other"

text \<open>The exceptions that can leave the handler. \<open>OtherError\<close> stands for whatever a
  collaborator (a middleware, a domain model, the transport library) raises.\<close>

datatype error =
    AttributeError
  | UnicodeDecodeError
  | KeyError pystr
  | PythXAPIError pystr
  | OtherError pystr

subsection \<open>\<open>bytes.decode()\<close>: strict UTF-8\<close>

definition cont :: "nat \<Rightarrow> bool" where
  "cont b = (128 \<le> b \<and> b \<le> 191)"

text \<open>The range of the second octet of a sequence depends on the first: no overlong
  form (after E0 and F0), no surrogate (after ED), nothing above U+10FFFF (after F4).\<close>

definition second_lo :: "nat \<Rightarrow> nat" where
  "second_lo b0 = (if b0 = 224 then 160 else if b0 = 240 then 144 else 128)"

definition second_hi :: "nat \<Rightarrow> nat" where
  "second_hi b0 = (if b0 = 237 then 159 else if b0 = 244 then 143 else 191)"

fun utf8_decode :: "nat list \<Rightarrow> pystr option" where
  "utf8_decode [] = Some []"
| "utf8_decode (b0 # bs) =
     (if b0 < 128 then map_option ((#) b0) (utf8_decode bs)
      else if 194 \<le> b0 \<and> b0 \<le> 223 then
        (case bs of
           b1 # r \<Rightarrow>
             if cont b1
             then map_option ((#) ((b0 - 192) * 64 + (b1 - 128))) (utf8_decode r)
             else None
         | _ \<Rightarrow> None)
      else if 224 \<le> b0 \<and> b0 \<le> 239 then
        (case bs of
           b1 # b2 # r \<Rightarrow>
             if second_lo b0 \<le> b1 \<and> b1 \<le> second_hi b0 \<and> cont b2
             then map_option
                    ((#) ((b0 - 224) * 4096 + (b1 - 128) * 64 + (b2 - 128)))
                    (utf8_decode r)
             else None
         | _ \<Rightarrow> None)
      else if 240 \<le> b0 \<and> b0 \<le> 244 then
        (case bs of
           b1 # b2 # b3 # r \<Rightarrow>
             if second_lo b0 \<le> b1 \<and> b1 \<le> second_hi b0 \<and> cont b2 \<and> cont b3
             then map_option
                    ((#) ((b0 - 240) * 262144 + (b1 - 128) * 4096
                          + (b2 - 128) * 64 + (b3 - 128)))
                    (utf8_decode r)
             else None
         | _ \<Rightarrow> None)
      else None)"

definition bytes_decode :: "bytes \<Rightarrow> error + pystr" where
  "bytes_decode bs =
     (case utf8_decode (map unat bs) of
        None \<Rightarrow> Inl UnicodeDecodeError
      | Some s \<Rightarrow> Inr s)"

subsection \<open>Formatting\<close>

text \<open>\<open>"{}".format(n)\<close> for an \<open>int\<close>: the decimal digits, with a minus sign below zero.\<close>

fun str_nat :: "nat \<Rightarrow> pystr" where
  "str_nat n = (if n < 10 then [48 + n] else str_nat (n div 10) @ [48 + n mod 10])"

declare str_nat.simps [simp del]

definition str_int :: "int \<Rightarrow> pystr" where
  "str_int i = (if i < 0 then 45 # str_nat (nat (- i)) else str_nat (nat i))"

text \<open>\<open>sep.join(parts)\<close>.\<close>

fun join :: "pystr \<Rightarrow> pystr list \<Rightarrow> pystr" where
  "join sep [] = []"
| "join sep [p] = p"
| "join sep (p # q # ps) = p @ sep @ join sep (q # ps)"

text \<open>\<open>"\n".join("{}: {}".format(k, v) for k, v in headers.items())\<close>.\<close>

definition format_headers :: "dict \<Rightarrow> pystr" where
  "format_headers hs = join [10] (map (\<lambda>(k, v). k @ py '': '' @ v) hs)"

section \<open>The objects of the pipeline\<close>

text \<open>
  Mappings such as a request's headers are mutable objects: the handler passes references
  to them around and updates one of them in place. The store maps the address of each
  such mapping to its present contents.
\<close>

type_synonym addr = nat

type_synonym heap = "addr \<Rightarrow> dict"

text \<open>The domain request: what \<open>req.endpoint\<close>, \<open>req.method\<close>, \<open>req.payload\<close>,
  \<open>req.parameters\<close> and \<open>req.headers\<close> give. The payload is opaque to the handler.\<close>

record 'p domain_request =
  endpoint :: pystr
  req_method :: pystr
  req_payload :: 'p
  parameters :: addr
  req_headers :: addr

text \<open>The request data dictionary that \<open>assemble_request\<close> builds, with its five keys.\<close>

record 'p request_data =
  method_of :: pystr
  payload :: 'p
  params :: addr
  headers :: addr
  url :: pystr

text \<open>The arguments of one \<open>requests.request\<close> call, and what the call gives back: the
  response and, inside it, the prepared request that went out.\<close>

record 'p call =
  c_method :: pystr
  c_url :: pystr
  c_headers :: dict
  c_json :: 'p
  c_params :: dict

datatype body = NoBody | TextBody pystr | BytesBody bytes

record prepared_request =
  p_method :: pystr
  p_url :: pystr
  p_headers :: dict
  p_body :: body

record response =
  status_code :: int
  r_headers :: dict
  content :: bytes
  r_text :: pystr
  request :: prepared_request

text \<open>
  The state the handler works on: the store of mappings, the messages handed to
  \<open>LOGGER.debug\<close>, and the network calls made so far.
\<close>

record 'p state =
  heap :: heap
  log :: "pystr list"
  net :: "'p call list"

definition debug :: "pystr \<Rightarrow> 'p state \<Rightarrow> 'p state" where
  "debug msg st = st\<lparr>log := log st @ [msg]\<rparr>"

text \<open>A middleware: how it prints, and its two transforms, which may change the state
  and may raise.\<close>

record ('p, 'm) middleware =
  mw_repr :: pystr
  process_request :: "'p state \<Rightarrow> 'p request_data \<Rightarrow> 'p state \<times> (error + 'p request_data)"
  process_response :: "'p state \<Rightarrow> 'm \<Rightarrow> 'p state \<times> (error + 'm)"

record ('p, 'm) api_handler =
  middlewares :: "('p, 'm) middleware list"
  mode :: pystr

section \<open>The handler\<close>

subsection \<open>\<open>print_request\<close> and \<open>print_response\<close>\<close>

text \<open>\<open>req.body.decode()\<close>: only a \<open>bytes\<close> object can be decoded.\<close>

definition body_decode :: "body \<Rightarrow> error + pystr" where
  "body_decode b =
     (case b of
        NoBody \<Rightarrow> Inl AttributeError
      | TextBody s \<Rightarrow> Inl AttributeError
      | BytesBody bs \<Rightarrow> bytes_decode bs)"

definition print_request :: "prepared_request \<Rightarrow> error + pystr" where
  "print_request req =
     (case body_decode (p_body req) of
        Inl e \<Rightarrow> Inl e
      | Inr b \<Rightarrow>
          Inr ([10] @ py ''HTTP/1.1 '' @ p_method req @ py '' '' @ p_url req @ [10]
               @ format_headers (p_headers req) @ [10, 10] @ b @ [10]))"

definition print_response :: "response \<Rightarrow> error + pystr" where
  "print_response res =
     (case bytes_decode (content res) of
        Inl e \<Rightarrow> Inl e
      | Inr b \<Rightarrow>
          Inr ([10] @ py ''HTTP/1.1 '' @ str_int (status_code res) @ [10]
               @ format_headers (r_headers res) @ [10, 10] @ b @ [10]))"

subsection \<open>\<open>APIHandler.__init__\<close>\<close>

definition init :: "('p, 'm) middleware list option \<Rightarrow> bool \<Rightarrow> ('p, 'm) api_handler" where
  "init mws staging =
     \<lparr>middlewares = (case mws of None \<Rightarrow> [] | Some ms \<Rightarrow> ms),
      mode = (if staging then py ''staging'' else py ''production'')\<rparr>"

subsection \<open>\<open>APIHandler.send_request\<close>\<close>

text \<open>
  \<open>str.upper\<close> and \<open>requests.request\<close> belong to the Python library; they are
  parameters (\<open>upper\<close>, \<open>transport\<close>). The transport either raises or gives a response.
\<close>

text \<open>\<open>if auth_header is None: auth_header = {}\<close>.\<close>

definition auth_or_empty :: "dict option \<Rightarrow> dict" where
  "auth_or_empty auth_header = (case auth_header of None \<Rightarrow> [] | Some a \<Rightarrow> a)"

definition send_request ::
  "(pystr \<Rightarrow> pystr) \<Rightarrow> ('p call \<Rightarrow> error + response) \<Rightarrow>
   'p state \<Rightarrow> 'p request_data \<Rightarrow> dict option \<Rightarrow> 'p state \<times> (error + pystr)" where
  "send_request upper transport st request_data auth_header =
     (let auth = auth_or_empty auth_header;
          m = upper (method_of request_data);
          hs = headers request_data;
          st1 = st\<lparr>heap := (heap st)(hs := dict_update (heap st hs) auth)\<rparr>;
          c = \<lparr>c_method = m, c_url = url request_data, c_headers = heap st1 hs,
               c_json = payload request_data,
               c_params = heap st1 (params request_data)\<rparr>;
          st2 = st1\<lparr>net := net st1 @ [c]\<rparr>
      in case transport c of
           Inl e \<Rightarrow> (st2, Inl e)
         | Inr res \<Rightarrow>
             (case print_request (request res) of
                Inl e \<Rightarrow> (st2, Inl e)
              | Inr t1 \<Rightarrow>
                  (case print_response res of
                     Inl e \<Rightarrow> (debug t1 st2, Inl e)
                   | Inr t2 \<Rightarrow>
                       (let st3 = debug t2 (debug t1 st2)
                        in if status_code res \<noteq> 200
                           then (case bytes_decode (content res) of
                                   Inl e \<Rightarrow> (st3, Inl e)
                                 | Inr b \<Rightarrow>
                                     (st3,
                                      Inl (PythXAPIError
                                             (py ''Got unexpected status code ''
                                              @ str_int (status_code res)
                                              @ py '': '' @ b))))
                           else (st3, Inr (r_text res))))))"

subsection \<open>The middleware loops\<close>

fun run_request_middlewares ::
  "('p, 'm) middleware list \<Rightarrow> 'p state \<Rightarrow> 'p request_data \<Rightarrow>
   'p state \<times> (error + 'p request_data)" where
  "run_request_middlewares [] st req = (st, Inr req)"
| "run_request_middlewares (mw # mws) st req =
     (case process_request mw
             (debug (py ''Executing request middleware: '' @ mw_repr mw) st) req of
        (st', Inl e) \<Rightarrow> (st', Inl e)
      | (st', Inr req') \<Rightarrow> run_request_middlewares mws st' req')"

definition execute_request_middlewares ::
  "('p, 'm) api_handler \<Rightarrow> 'p state \<Rightarrow> 'p request_data \<Rightarrow>
   'p state \<times> (error + 'p request_data)" where
  "execute_request_middlewares self st req =
     run_request_middlewares (middlewares self) st req"

fun run_response_middlewares ::
  "('p, 'm) middleware list \<Rightarrow> 'p state \<Rightarrow> 'm \<Rightarrow> 'p state \<times> (error + 'm)" where
  "run_response_middlewares [] st resp = (st, Inr resp)"
| "run_response_middlewares (mw # mws) st resp =
     (case process_response mw
             (debug (py ''Executing response middleware: '' @ mw_repr mw) st) resp of
        (st', Inl e) \<Rightarrow> (st', Inl e)
      | (st', Inr resp') \<Rightarrow> run_response_middlewares mws st' resp')"

definition execute_response_middlewares ::
  "('p, 'm) api_handler \<Rightarrow> 'p state \<Rightarrow> 'm \<Rightarrow> 'p state \<times> (error + 'm)" where
  "execute_response_middlewares self st resp =
     run_response_middlewares (middlewares self) st resp"

subsection \<open>\<open>APIHandler.parse_response\<close>\<close>

text \<open>The model class is given by its \<open>from_json\<close>, which builds the model or raises.\<close>

definition parse_response ::
  "('p, 'm) api_handler \<Rightarrow> 'p state \<Rightarrow> pystr \<Rightarrow> (pystr \<Rightarrow> error + 'm) \<Rightarrow>
   'p state \<times> (error + 'm)" where
  "parse_response self st resp from_json =
     (case from_json resp of
        Inl e \<Rightarrow> (st, Inl e)
      | Inr m \<Rightarrow> execute_response_middlewares self st m)"

subsection \<open>\<open>APIHandler.assemble_request\<close>\<close>

text \<open>
  \<open>config["endpoints"]\<close> (the mapping from mode to base URL) and
  \<open>urllib.parse.urljoin\<close> are parameters. A missing mode is a \<open>KeyError\<close>.
\<close>

definition base_request ::
  "pystr \<Rightarrow> 'p domain_request \<Rightarrow> 'p request_data" where
  "base_request u req =
     \<lparr>method_of = req_method req, payload = req_payload req,
      params = parameters req, headers = req_headers req, url = u\<rparr>"

definition assemble_request ::
  "(pystr \<Rightarrow> pystr \<Rightarrow> error + pystr) \<Rightarrow> dict \<Rightarrow> ('p, 'm) api_handler \<Rightarrow>
   'p state \<Rightarrow> 'p domain_request \<Rightarrow> 'p state \<times> (error + 'p request_data)" where
  "assemble_request urljoin endpoints self st req =
     (case map_of endpoints (mode self) of
        None \<Rightarrow> (st, Inl (KeyError (mode self)))
      | Some base \<Rightarrow>
          (case urljoin base (endpoint req) of
             Inl e \<Rightarrow> (st, Inl e)
           | Inr u \<Rightarrow> execute_request_middlewares self st (base_request u req)))"

subsection \<open>The pipeline: \<open>assemble_request\<close>, then \<open>send_request\<close>\<close>


section \<open>The stages as the specification words them\<close>

text \<open>
  The specification describes each stage as a fold over the registered middlewares, left
  to right, every middleware receiving the output of the one before it, and the chain
  aborting at the first fault. \<open>foldl\<close> is that fold; a fault in the accumulator is kept.
\<close>

definition stage_step ::
  "('x \<Rightarrow> 's \<Rightarrow> 'a \<Rightarrow> 's \<times> (error + 'a)) \<Rightarrow> 's \<times> (error + 'a) \<Rightarrow> 'x \<Rightarrow> 's \<times> (error + 'a)" where
  "stage_step f acc mw =
     (case acc of (st, Inl e) \<Rightarrow> (st, Inl e) | (st, Inr x) \<Rightarrow> f mw st x)"

definition runRequestStage ::
  "('p, 'm) middleware list \<Rightarrow> 'p state \<Rightarrow> 'p request_data \<Rightarrow>
   'p state \<times> (error + 'p request_data)" where
  "runRequestStage ms st d =
     foldl (stage_step (\<lambda>mw s. process_request mw
                               (debug (py ''Executing request middleware: '' @ mw_repr mw) s)))
           (st, Inr d) ms"

definition runResponseStage ::
  "('p, 'm) middleware list \<Rightarrow> 'p state \<Rightarrow> 'm \<Rightarrow> 'p state \<times> (error + 'm)" where
  "runResponseStage ms st m =
     foldl (stage_step (\<lambda>mw s. process_response mw
                               (debug (py ''Executing response middleware: '' @ mw_repr mw) s)))
           (st, Inr m) ms"

section \<open>Example collaborators\<close>

text \<open>\<open>str.upper\<close> on ASCII text, as the verbs of HTTP are.\<close>

definition ascii_upper :: "pystr \<Rightarrow> pystr" where
  "ascii_upper s = map (\<lambda>c. if 97 \<le> c \<and> c \<le> 122 then c - 32 else c) s"

text \<open>\<open>urljoin\<close> for a base that ends in a slash and a relative path without dot segments:
  the path is appended. The examples use it on such inputs only.\<close>

definition join_relative :: "pystr \<Rightarrow> pystr \<Rightarrow> error + pystr" where
  "join_relative base path = Inr (base @ path)"

definition example_endpoints :: dict where
  "example_endpoints =
     [(py ''production'', py ''https://api.mythx.io/''),
      (py ''staging'', py ''https://staging.api.mythx.io/'')]"

text \<open>
  A server that answers every call with the given status, body and text. The payload of
  the examples is the serialised JSON body, or \<open>None\<close>; as \<open>requests\<close> does for
  \<open>json=None\<close>, the prepared request then has no body.
\<close>

definition answering ::
  "int \<Rightarrow> bytes \<Rightarrow> pystr \<Rightarrow> bytes option call \<Rightarrow> error + response" where
  "answering code raw txt c =
     Inr \<lparr>status_code = code, r_headers = [], content = raw, r_text = txt,
          request = \<lparr>p_method = c_method c, p_url = c_url c, p_headers = c_headers c,
                     p_body = (case c_json c of None \<Rightarrow> NoBody | Some b \<Rightarrow> BytesBody b)\<rparr>\<rparr>"

text \<open>The same server behind an old transport that keeps the serialised JSON as text.\<close>

definition answering_text_body ::
  "int \<Rightarrow> bytes \<Rightarrow> pystr \<Rightarrow> pystr call \<Rightarrow> error + response" where
  "answering_text_body code raw txt c =
     Inr \<lparr>status_code = code, r_headers = [], content = raw, r_text = txt,
          request = \<lparr>p_method = c_method c, p_url = c_url c, p_headers = c_headers c,
                     p_body = TextBody (c_json c)\<rparr>\<rparr>"

definition empty_state :: "'p state" where
  "empty_state = \<lparr>heap = (\<lambda>a. []), log = [], net = []\<rparr>"

text \<open>Three middlewares: one sets a header in the request's header mapping, in place; one
  replaces the URL; one raises on both stages. The response model of the examples is a
  text.\<close>

definition set_header :: "pystr \<Rightarrow> pystr \<Rightarrow> ('p, pystr) middleware" where
  "set_header k v =
     \<lparr>mw_repr = py ''set_header'',
      process_request =
        (\<lambda>st d. (st\<lparr>heap := (heap st)(headers d := dict_setitem k v (heap st (headers d)))\<rparr>,
                 Inr d)),
      process_response = (\<lambda>st m. (st, Inr (m @ k)))\<rparr>"

definition set_url :: "pystr \<Rightarrow> ('p, pystr) middleware" where
  "set_url u =
     \<lparr>mw_repr = py ''set_url'',
      process_request = (\<lambda>st d. (st, Inr (d\<lparr>url := u\<rparr>))),
      process_response = (\<lambda>st m. (st, Inr m))\<rparr>"

definition raising :: "pystr \<Rightarrow> ('p, pystr) middleware" where
  "raising msg =
     \<lparr>mw_repr = py ''raising'',
      process_request = (\<lambda>st d. (st, Inl (OtherError msg))),
      process_response = (\<lambda>st m. (st, Inl (OtherError msg)))\<rparr>"

definition example_request :: "'p \<Rightarrow> 'p domain_request" where
  "example_request p =
     \<lparr>endpoint = py ''v1/version'', req_method = py ''get'', req_payload = p,
      parameters = 0, req_headers = 1\<rparr>"

definition example_data :: "'p \<Rightarrow> 'p request_data" where
  "example_data p =
     \<lparr>method_of = py ''get'', payload = p, params = 0, headers = 1,
      url = py ''https://api.mythx.io/v1/version''\<rparr>"

text \<open>A model class of the examples: its \<open>from_json\<close> takes any text but the empty one.\<close>

definition nonempty_json :: "pystr \<Rightarrow> error + pystr" where
  "nonempty_json s = (if s = [] then Inl (OtherError (py ''no JSON'')) else Inr s)"



section \<open>Properties\<close>

text \<open>
  C10. A handler built without a middleware list has an empty chain, and with the empty
  chain both stages give back what they are given, in an unchanged state.
\<close>

theorem init_none_stages_identity:
  "middlewares (init None staging) = []
   \<and> execute_request_middlewares (init None staging) st d = (st, Inr d)
   \<and> execute_response_middlewares (init None staging) st m = (st, Inr m)"
  by (simp add: init_def execute_request_middlewares_def execute_response_middlewares_def)

subsection \<open>The middleware chain\<close>

lemma foldl_stage_step_fault:
  "foldl (stage_step f) (st, Inl e) ms = (st, Inl e)"
  by (induction ms) (simp_all add: stage_step_def)

lemma run_request_middlewares_foldl:
  "run_request_middlewares ms st d = runRequestStage ms st d"
proof (induction ms arbitrary: st d)
  case Nil
  show ?case by (simp add: runRequestStage_def)
next
  case (Cons mw ms)
  obtain st' r where step:
    "process_request mw (debug (py ''Executing request middleware: '' @ mw_repr mw) st) d = (st', r)"
    by (cases "process_request mw (debug (py ''Executing request middleware: '' @ mw_repr mw) st) d")
  show ?case
  proof (cases r)
    case (Inl e)
    with step show ?thesis
      by (simp add: runRequestStage_def stage_step_def foldl_stage_step_fault)
  next
    case (Inr d')
    with step Cons.IH [of st' d'] show ?thesis
      by (simp add: runRequestStage_def stage_step_def)
  qed
qed

lemma run_response_middlewares_foldl:
  "run_response_middlewares ms st m = runResponseStage ms st m"
proof (induction ms arbitrary: st m)
  case Nil
  show ?case by (simp add: runResponseStage_def)
next
  case (Cons mw ms)
  obtain st' r where step:
    "process_response mw (debug (py ''Executing response middleware: '' @ mw_repr mw) st) m = (st', r)"
    by (cases "process_response mw (debug (py ''Executing response middleware: '' @ mw_repr mw) st) m")
  show ?case
  proof (cases r)
    case (Inl e)
    with step show ?thesis
      by (simp add: runResponseStage_def stage_step_def foldl_stage_step_fault)
  next
    case (Inr m')
    with step Cons.IH [of st' m'] show ?thesis
      by (simp add: runResponseStage_def stage_step_def)
  qed
qed

text \<open>
  C3. Each stage is the left-to-right fold of its argument through the transforms of the
  registered middlewares: \<open>process_request\<close> on the request stage,
  \<open>process_response\<close> on the response stage, both over the chain in registration
  order, so that the middleware registered first runs first on both.
\<close>

theorem stages_fold_in_registration_order:
  "execute_request_middlewares self st d = runRequestStage (middlewares self) st d
   \<and> execute_response_middlewares self st m = runResponseStage (middlewares self) st m"
  by (simp add: execute_request_middlewares_def execute_response_middlewares_def
      run_request_middlewares_foldl run_response_middlewares_foldl)

lemma run_request_middlewares_append:
  "run_request_middlewares (pre @ post) st d =
     (case run_request_middlewares pre st d of
        (st1, Inl e) \<Rightarrow> (st1, Inl e)
      | (st1, Inr d1) \<Rightarrow> run_request_middlewares post st1 d1)"
  by (induction pre arbitrary: st d) (auto split: prod.splits sum.splits)

lemma run_response_middlewares_append:
  "run_response_middlewares (pre @ post) st m =
     (case run_response_middlewares pre st m of
        (st1, Inl e) \<Rightarrow> (st1, Inl e)
      | (st1, Inr m1) \<Rightarrow> run_response_middlewares post st1 m1)"
  by (induction pre arbitrary: st m) (auto split: prod.splits sum.splits)

text \<open>
  C6. When the middlewares before the k-th one have run and the k-th raises, the stage
  ends with that fault as it was raised and with the state the k-th middleware left:
  what the earlier middlewares changed stands, and the middlewares after it play no part
  in the result. This holds on the request stage and on the response stage.
\<close>

theorem middleware_fault_aborts_chain:
  "(run_request_middlewares pre st d = (st_pre, Inr d_pre) \<longrightarrow>
    process_request mw (debug (py ''Executing request middleware: '' @ mw_repr mw) st_pre) d_pre
      = (st_fault, Inl e) \<longrightarrow>
    execute_request_middlewares (self\<lparr>middlewares := pre @ mw # post\<rparr>) st d
      = (st_fault, Inl e))
   \<and> (run_response_middlewares pre st' m = (st_pre', Inr m_pre) \<longrightarrow>
    process_response mw (debug (py ''Executing response middleware: '' @ mw_repr mw) st_pre') m_pre
      = (st_fault', Inl e') \<longrightarrow>
    execute_response_middlewares (self\<lparr>middlewares := pre @ mw # post\<rparr>) st' m
      = (st_fault', Inl e'))"
  by (simp add: execute_request_middlewares_def execute_response_middlewares_def
      run_request_middlewares_append run_response_middlewares_append)

theorem middleware_fault_aborts_chain_witness:
  "execute_request_middlewares
     \<lparr>middlewares = [set_header (py ''X'') (py ''1''), raising (py ''boom''),
                     set_url (py ''http://other/'')],
      mode = py ''production''\<rparr> empty_state (example_data ())
   = (\<lparr>heap = (\<lambda>a. [])(1 := [(py ''X'', py ''1'')]),
       log = [py ''Executing request middleware: set_header'',
              py ''Executing request middleware: raising''],
       net = []\<rparr>, Inl (OtherError (py ''boom'')))
   \<and> execute_response_middlewares
     \<lparr>middlewares = [set_header (py ''X'') (py ''1''), raising (py ''boom''),
                     set_url (py ''http://other/'')],
      mode = py ''production''\<rparr> (empty_state :: unit state) (py ''m'')
   = (\<lparr>heap = (\<lambda>a. []),
       log = [py ''Executing response middleware: set_header'',
              py ''Executing response middleware: raising''],
       net = []\<rparr>, Inl (OtherError (py ''boom'')))"
proof -
  let ?pre = "[set_header (py ''X'') (py ''1'')] :: (unit, pystr) middleware list"
  let ?mw = "raising (py ''boom'') :: (unit, pystr) middleware"
  let ?post = "[set_url (py ''http://other/'')] :: (unit, pystr) middleware list"
  let ?self = "\<lparr>middlewares = [], mode = py ''production''\<rparr> :: (unit, pystr) api_handler"
  let ?st1 = "\<lparr>heap = (\<lambda>a. [])(1 := [(py ''X'', py ''1'')]),
               log = [py ''Executing request middleware: set_header''],
               net = []\<rparr> :: unit state"
  let ?st2 = "\<lparr>heap = (\<lambda>a. [])(1 := [(py ''X'', py ''1'')]),
       log = [py ''Executing request middleware: set_header'',
              py ''Executing request middleware: raising''],
       net = []\<rparr> :: unit state"
  let ?st1' = "\<lparr>heap = (\<lambda>a. []),
               log = [py ''Executing response middleware: set_header''],
               net = []\<rparr> :: unit state"
  let ?st2' = "\<lparr>heap = (\<lambda>a. []),
       log = [py ''Executing response middleware: set_header'',
              py ''Executing response middleware: raising''],
       net = []\<rparr> :: unit state"
  have h1: "run_request_middlewares ?pre empty_state (example_data ()) = (?st1, Inr (example_data ()))"
    by (simp add: set_header_def empty_state_def example_data_def debug_def py_def)
  have h2: "process_request ?mw (debug (py ''Executing request middleware: '' @ mw_repr ?mw) ?st1)
              (example_data ()) = (?st2, Inl (OtherError (py ''boom'')))"
    by (simp add: raising_def debug_def py_def)
  have h3: "run_response_middlewares ?pre empty_state (py ''m'') = (?st1', Inr (py ''mX''))"
    by (simp add: set_header_def empty_state_def debug_def py_def)
  have h4: "process_response ?mw (debug (py ''Executing response middleware: '' @ mw_repr ?mw) ?st1')
              (py ''mX'') = (?st2', Inl (OtherError (py ''boom'')))"
    by (simp add: raising_def debug_def py_def)
  from h1 h2 h3 h4
    middleware_fault_aborts_chain [where pre = ?pre and st = empty_state
      and d = "example_data ()" and st_pre = ?st1 and d_pre = "example_data ()"
      and mw = ?mw and st_fault = ?st2 and e = "OtherError (py ''boom'')" and self = ?self
      and post = ?post and st' = empty_state and m = "py ''m''" and st_pre' = ?st1'
      and m_pre = "py ''mX''" and st_fault' = ?st2' and e' = "OtherError (py ''boom'')"]
  show ?thesis by simp
qed

subsection \<open>Decoding a response\<close>

text \<open>
  C5. \<open>parse_response\<close> builds the model with the \<open>from_json\<close> of the model class.
  When that gives a model, the result is the response stage applied to it; when it raises,
  the fault leaves \<open>parse_response\<close> as it is, with the state untouched.
\<close>

theorem parse_response_decodes_then_runs_stage:
  "(from_json resp = Inr m \<longrightarrow>
      parse_response self st resp from_json = execute_response_middlewares self st m)
   \<and> (from_json resp = Inl e \<longrightarrow> parse_response self st resp from_json = (st, Inl e))"
  by (simp add: parse_response_def)

theorem parse_response_decodes_then_runs_stage_witness:
  "parse_response \<lparr>middlewares = [set_header (py ''X'') (py ''1'')], mode = py ''production''\<rparr>
      (empty_state :: unit state) (py ''{}'') nonempty_json
    = (\<lparr>heap = (\<lambda>a. []), log = [py ''Executing response middleware: set_header''],
        net = []\<rparr>, Inr (py ''{}X''))
   \<and> parse_response \<lparr>middlewares = [set_header (py ''X'') (py ''1'')], mode = py ''production''\<rparr>
      (empty_state :: unit state) [] nonempty_json
    = (empty_state, Inl (OtherError (py ''no JSON'')))"
  using parse_response_decodes_then_runs_stage
          [where from_json = nonempty_json and resp = "py ''{}''" and m = "py ''{}''"
             and self = "\<lparr>middlewares = [set_header (py ''X'') (py ''1'')],
                          mode = py ''production''\<rparr>"
             and st = "empty_state :: unit state"]
        parse_response_decodes_then_runs_stage
          [where from_json = nonempty_json and resp = "[]"
             and self = "\<lparr>middlewares = [set_header (py ''X'') (py ''1'')],
                          mode = py ''production''\<rparr>"
             and st = "empty_state :: unit state" and e = "OtherError (py ''no JSON'')"]
  by (simp add: nonempty_json_def execute_response_middlewares_def set_header_def
      empty_state_def debug_def py_def)

subsection \<open>Sending a request\<close>








subsection \<open>Assembling a request\<close>

text \<open>A chain of middlewares that each keep the URL keeps the URL.\<close>

lemma run_request_middlewares_url:
  assumes "\<forall>mw\<in>set ms. \<forall>s x s' x'. process_request mw s x = (s', Inr x') \<longrightarrow> url x' = url x"
    and "run_request_middlewares ms st d = (st', Inr d')"
  shows "url d' = url d"
  using assms
proof (induction ms arbitrary: st d)
  case Nil
  then show ?case by simp
next
  case (Cons mw ms)
  obtain s1 r where step:
    "process_request mw (debug (py ''Executing request middleware: '' @ mw_repr mw) st) d = (s1, r)"
    by (cases "process_request mw (debug (py ''Executing request middleware: '' @ mw_repr mw) st) d")
  show ?case
  proof (cases r)
    case (Inl e)
    with step Cons.prems(2) show ?thesis by simp
  next
    case (Inr d1)
    with step Cons.prems(1) have "url d1 = url d" by simp
    moreover from Inr step Cons.prems(2) have "run_request_middlewares ms s1 d1 = (st', Inr d')"
      by simp
    with Cons.IH [of s1 d1] Cons.prems(1) have "url d' = url d1" by simp
    ultimately show ?thesis by simp
  qed
qed

text \<open>
  C2, as the code has it. For every chain, what \<open>assemble_request\<close> hands to the
  request stage is the request data with the URL that \<open>urljoin\<close> gives for the base URL
  of the handler's mode and the endpoint of the domain request. The request stage runs on
  it before it is returned: with an empty chain it is returned as built, and it still has
  that URL at the end of any chain whose middlewares leave the URL alone.
\<close>

theorem assemble_request_url_join:
  assumes "map_of endpoints (mode self) = Some base"
    and "urljoin base (endpoint req) = Inr u"
  shows "assemble_request urljoin endpoints self st req
           = execute_request_middlewares self st (base_request u req)
       \<and> url (base_request u req) = u
       \<and> (middlewares self = [] \<longrightarrow>
            assemble_request urljoin endpoints self st req = (st, Inr (base_request u req))
            \<and> url (base_request u req) = u)
       \<and> ((\<forall>mw\<in>set (middlewares self). \<forall>s x s' x'.
               process_request mw s x = (s', Inr x') \<longrightarrow> url x' = url x) \<longrightarrow>
            (\<forall>st' d. assemble_request urljoin endpoints self st req = (st', Inr d) \<longrightarrow>
               url d = u))"
proof (intro conjI impI allI)
  from assms show "assemble_request urljoin endpoints self st req
           = execute_request_middlewares self st (base_request u req)"
    by (simp add: assemble_request_def)
next
  show "url (base_request u req) = u" by (simp add: base_request_def)
next
  assume "middlewares self = []"
  with assms show "assemble_request urljoin endpoints self st req = (st, Inr (base_request u req))"
    by (simp add: assemble_request_def execute_request_middlewares_def)
next
  show "url (base_request u req) = u" by (simp add: base_request_def)
next
  fix st' d
  assume keep: "\<forall>mw\<in>set (middlewares self). \<forall>s x s' x'.
               process_request mw s x = (s', Inr x') \<longrightarrow> url x' = url x"
    and res: "assemble_request urljoin endpoints self st req = (st', Inr d)"
  from res assms have "run_request_middlewares (middlewares self) st (base_request u req) = (st', Inr d)"
    by (simp add: assemble_request_def execute_request_middlewares_def)
  from run_request_middlewares_url [OF keep this] show "url d = u"
    by (simp add: base_request_def)
qed

theorem assemble_request_url_join_witness:
  "map_of example_endpoints (mode (init (Some [set_header (py ''X'') (py ''1'')]) False))
     = Some (py ''https://api.mythx.io/'')
   \<and> join_relative (py ''https://api.mythx.io/'') (endpoint (example_request ()))
     = Inr (py ''https://api.mythx.io/v1/version'')
   \<and> assemble_request join_relative example_endpoints (init None False :: (unit, pystr) api_handler)
        empty_state (example_request ())
     = (empty_state, Inr (example_data ()))
   \<and> assemble_request join_relative example_endpoints
        (init (Some [set_header (py ''X'') (py ''1'')]) False) empty_state (example_request ())
     = (\<lparr>heap = (\<lambda>a. [])(1 := [(py ''X'', py ''1'')]),
         log = [py ''Executing request middleware: set_header''], net = []\<rparr>,
        Inr (example_data ()))
   \<and> url (example_data ()) = py ''https://api.mythx.io/v1/version''"
proof -
  have ep: "map_of example_endpoints (mode (init (Some [set_header (py ''X'') (py ''1'')]) False))
     = Some (py ''https://api.mythx.io/'')"
    and ep0: "map_of example_endpoints (mode (init None False :: (unit, pystr) api_handler)) = Some (py ''https://api.mythx.io/'')"
    by (simp_all add: example_endpoints_def init_def py_def)
  have jn: "join_relative (py ''https://api.mythx.io/'') (endpoint (example_request ()))
     = Inr (py ''https://api.mythx.io/v1/version'')"
    by (simp add: join_relative_def example_request_def py_def)
  have run: "assemble_request join_relative example_endpoints
        (init (Some [set_header (py ''X'') (py ''1'')]) False) empty_state (example_request ())
     = (\<lparr>heap = (\<lambda>a. [])(1 := [(py ''X'', py ''1'')]),
         log = [py ''Executing request middleware: set_header''], net = []\<rparr>,
        Inr (example_data ()))"
    by (simp add: assemble_request_def execute_request_middlewares_def example_endpoints_def
        init_def join_relative_def example_request_def example_data_def base_request_def
        set_header_def empty_state_def debug_def py_def)
  have keep: "\<forall>mw\<in>set (middlewares (init (Some [set_header (py ''X'') (py ''1'')]) False)).
      \<forall>s x s' x'. process_request mw s (x :: unit request_data) = (s', Inr x') \<longrightarrow> url x' = url x"
    by (simp add: init_def set_header_def)
  from assemble_request_url_join
         [where urljoin = join_relative and endpoints = example_endpoints
            and self = "init None False :: (unit, pystr) api_handler" and req = "example_request ()"
            and st = empty_state, OF ep0 jn, THEN conjunct2, THEN conjunct2]
  have a: "assemble_request join_relative example_endpoints (init None False :: (unit, pystr) api_handler)
        empty_state (example_request ()) = (empty_state, Inr (example_data ()))"
    by (simp add: init_def base_request_def example_request_def example_data_def py_def)
  from assemble_request_url_join
         [where urljoin = join_relative and endpoints = example_endpoints
            and self = "init (Some [set_header (py ''X'') (py ''1'')]) False"
            and req = "example_request ()" and st = empty_state, OF ep jn, THEN conjunct2, THEN conjunct2]
       keep run
  have b: "url (example_data ()) = py ''https://api.mythx.io/v1/version''"
    by blast
  from ep jn a run b show ?thesis by blast
qed

text \<open>
  C2, as stated, fails for a handler with a middleware that replaces the URL: the URL of
  the request data returned is the middleware's, not the join of base URL and endpoint.
\<close>

theorem assemble_request_url_counterexample:
  "map_of example_endpoints (mode (init (Some [set_url (py ''https://elsewhere.example/'')]) False))
     = Some (py ''https://api.mythx.io/'')
   \<and> join_relative (py ''https://api.mythx.io/'') (endpoint (example_request ()))
     = Inr (py ''https://api.mythx.io/v1/version'')
   \<and> assemble_request join_relative example_endpoints
        (init (Some [set_url (py ''https://elsewhere.example/'')]) False)
        empty_state (example_request ())
     = (debug (py ''Executing request middleware: set_url'') empty_state,
        Inr ((example_data ())\<lparr>url := py ''https://elsewhere.example/''\<rparr>))
   \<and> py ''https://elsewhere.example/'' \<noteq> py ''https://api.mythx.io/v1/version''"
  by (simp add: assemble_request_def execute_request_middlewares_def example_endpoints_def
        init_def join_relative_def example_request_def example_data_def base_request_def
        set_url_def empty_state_def debug_def py_def)

subsection \<open>The domain request and the pipeline\<close>

lemma assemble_request_empty_chain_state:
  "middlewares self = [] \<Longrightarrow> fst (assemble_request urljoin endpoints self st req) = st"
  by (simp add: assemble_request_def execute_request_middlewares_def
      split: option.splits sum.splits)










subsection \<open>The status gate and the diagnostic trace\<close>

text \<open>When the transport answers and both traces can be formatted, \<open>send_request\<close>
  returns the text of a response with status 200 and raises \<open>PythXAPIError\<close> for any
  other status, with the status code and the decoded body in the message.\<close>

lemma send_request_status_gate:
  assumes "\<And>c. transport c = Inr res"
    and "print_request (request res) = Inr t1"
    and "bytes_decode (content res) = Inr b"
  shows "snd (send_request upper transport st d a) =
           (if status_code res = 200 then Inr (r_text res)
            else Inl (PythXAPIError (py ''Got unexpected status code ''
                                     @ str_int (status_code res) @ py '': '' @ b)))"
  using assms by (simp add: send_request_def Let_def print_response_def)

lemma api_error_message_contains:
  "sublist (str_int code) (py ''Got unexpected status code '' @ str_int code @ py '': '' @ b)
   \<and> sublist b (py ''Got unexpected status code '' @ str_int code @ py '': '' @ b)"
proof
  show "sublist (str_int code) (py ''Got unexpected status code '' @ str_int code @ py '': '' @ b)"
    by (rule sublist_appendI)
  have "sublist b ((py ''Got unexpected status code '' @ str_int code @ py '': '') @ b)"
    by (rule sublist_append_leftI)
  then show "sublist b (py ''Got unexpected status code '' @ str_int code @ py '': '' @ b)"
    by simp
qed

lemma send_request_400_example:
  "snd (send_request ascii_upper
          (answering 400 [98, 97, 100, 32, 117, 117, 105, 100] (py ''bad uuid''))
          empty_state (example_data (Some [123, 125])) None)
   = Inl (PythXAPIError (py ''Got unexpected status code 400: bad uuid''))"
  by (simp add: send_request_def Let_def answering_def print_request_def print_response_def
      body_decode_def bytes_decode_def format_headers_def str_int_def str_nat.simps
      auth_or_empty_def empty_state_def example_data_def debug_def ascii_upper_def py_def)

text \<open>A fault of the request trace is the outcome of \<open>send_request\<close>, whatever the
  status; and a body that is not UTF-8 makes the response trace raise.\<close>

lemma send_request_trace_fault:
  assumes "\<And>c. transport c = Inr res"
    and "print_request (request res) = Inl e"
  shows "snd (send_request upper transport st d a) = Inl e"
  using assms by (simp add: send_request_def Let_def)

lemma send_request_undecodable_body_example:
  "snd (send_request ascii_upper (answering 500 [255] [65533])
          empty_state (example_data (Some [123, 125])) None)
   = Inl UnicodeDecodeError"
  by (simp add: send_request_def Let_def answering_def print_request_def print_response_def
      body_decode_def bytes_decode_def format_headers_def
      auth_or_empty_def empty_state_def example_data_def debug_def ascii_upper_def py_def)

text \<open>
  C1. \<open>send_request\<close> returns the response text exactly for status 200 and raises
  \<open>PythXAPIError\<close> otherwise: so its documentation says, and so it does whenever the
  traces can be formatted (\<open>send_request_status_gate\<close>). The trace of the request is
  formatted before the status is looked at, though. For a request data whose payload is
  \<open>None\<close>, answered with status 200, the prepared request has no body,
  \<open>req.body.decode()\<close> raises, and \<open>send_request\<close> raises \<open>AttributeError\<close> where it
  should return the text.
\<close>

theorem send_request_raises_on_200_without_body:
  "snd (send_request ascii_upper (answering 200 [123, 125] (py ''{}''))
          empty_state (example_data None) None)
   = Inl AttributeError"
  by (simp add: send_request_def Let_def answering_def print_request_def
      body_decode_def example_data_def)

text \<open>
  C8. Formatting the trace is meant never to raise and never to change what
  \<open>send_request\<close> returns or raises. \<open>print_request\<close> raises \<open>AttributeError\<close> for
  a prepared request whose body is absent, and for one whose body is a text; a response
  with status 400 to a request with a text body, or to a request whose payload is
  \<open>None\<close> and which so goes out without a body, makes \<open>send_request\<close> raise
  \<open>AttributeError\<close>, not \<open>PythXAPIError\<close>.
\<close>

theorem print_request_raises_without_bytes_body:
  "print_request \<lparr>p_method = py ''GET'', p_url = py ''https://api.mythx.io/v1/version'',
                   p_headers = [], p_body = NoBody\<rparr> = Inl AttributeError
   \<and> print_request \<lparr>p_method = py ''GET'', p_url = py ''https://api.mythx.io/v1/version'',
                   p_headers = [], p_body = TextBody (py ''{}'')\<rparr> = Inl AttributeError
   \<and> snd (send_request ascii_upper (answering_text_body 400 [123, 125] (py ''{}''))
          empty_state (example_data (py ''{}'')) None)
     = Inl AttributeError
   \<and> snd (send_request ascii_upper
            (answering 400 [98, 97, 100, 32, 117, 117, 105, 100] (py ''bad uuid''))
            empty_state (example_data None) None)
     = Inl AttributeError"
  by (simp add: send_request_def Let_def answering_text_body_def answering_def
      print_request_def body_decode_def example_data_def)

end
